theory Spec2Isabelle
  imports Main
begin

section \<open>JavaScript values and plain objects\<close>

text \<open>
  The model instances of \<^verbatim>\<open>lib/model.js\<close> hold two plain JavaScript objects,
  \<^verbatim>\<open>_dirty\<close> and \<^verbatim>\<open>_canonical\<close>, whose property values come from the application and
  from database rows. The values of the model are the primitives the code tests for
  truthiness, plus nested plain objects (the column definitions are such objects).
  Numbers are the integers and \<open>NaN\<close>: the code never computes with a property value,
  it only tests it.
\<close>

datatype jsval =
    Undefined
  | Null
  | Bool bool
  | Num int
  | NaN
  | Str string
  | Obj "(string \<times> jsval) list"

text \<open>
  A plain object is the list of its own properties in property order. A well-formed
  object holds every key once (\<open>wf_obj\<close>). Only own data properties are modelled (no
  prototype chain, hence no inherited member and no key that JavaScript treats
  specially). Keys stand in insertion order; that JavaScript lists keys that are
  array indices first is not modelled, and no statement below depends on it.
\<close>

type_synonym obj = "(string \<times> jsval) list"

definition obj_keys :: "obj \<Rightarrow> string list" where
  \<comment> \<open>\<^verbatim>\<open>Object.keys(ob)\<close>\<close>
  "obj_keys ob = map fst ob"

definition wf_obj :: "obj \<Rightarrow> bool" where
  "wf_obj ob = distinct (obj_keys ob)"

text \<open>JavaScript's \<^verbatim>\<open>ToBoolean\<close>: what \<^verbatim>\<open>!v\<close>, \<^verbatim>\<open>v ? a : b\<close> and \<^verbatim>\<open>v || w\<close> test.\<close>

fun truthy :: "jsval \<Rightarrow> bool" where
  "truthy Undefined = False"
| "truthy Null = False"
| "truthy (Bool b) = b"
| "truthy (Num n) = (n \<noteq> 0)"
| "truthy NaN = False"
| "truthy (Str s) = (s \<noteq> [])"
| "truthy (Obj ps) = True"

definition js_or :: "jsval \<Rightarrow> jsval \<Rightarrow> jsval" where
  \<comment> \<open>\<^verbatim>\<open>a || b\<close>\<close>
  "js_or a b = (if truthy a then a else b)"

definition obj_get :: "obj \<Rightarrow> string \<Rightarrow> jsval" where
  \<comment> \<open>\<^verbatim>\<open>ob[k]\<close>: the value of an own property, \<^verbatim>\<open>undefined\<close> when there is none\<close>
  "obj_get ob k = (case map_of ob k of None \<Rightarrow> Undefined | Some v \<Rightarrow> v)"

fun obj_set :: "obj \<Rightarrow> string \<Rightarrow> jsval \<Rightarrow> obj" where
  \<comment> \<open>\<^verbatim>\<open>ob[k] = v\<close>: overwrites the property in place, or adds it at the end\<close>
  "obj_set [] k v = [(k, v)]"
| "obj_set ((k', v') # ps) k v =
     (if k' = k then (k, v) # ps else (k', v') # obj_set ps k v)"

definition obj_assign :: "obj \<Rightarrow> obj \<Rightarrow> obj" where
  \<comment> \<open>\<^verbatim>\<open>Object.assign(target, src)\<close>: sets every own property of \<open>src\<close> on \<open>target\<close>, in order\<close>
  "obj_assign target src = foldl (\<lambda>t (k, v). obj_set t k v) target src"

section \<open>Model instances\<close>

text \<open>
  \<^verbatim>\<open>
  constructor(data = {}) {
    this.table = Inflected.pluralize(this.constructor.name.toLowerCase())
    this._dirty = {}
    this._canonical = {}
    // If we have an id in the payload, then this is a result and not a new model
    this[data.id ? '_canonical' : '_dirty'] = data
    return new ModelProxy(this)
  }
  \<close>
  The table name is computed by the \<^verbatim>\<open>inflected\<close> package from the class name; the
  model takes the computed name. \<^verbatim>\<open>ModelProxy\<close> (package \<^verbatim>\<open>phobosjs-model\<close>) forwards
  to the methods below. An absent argument (\<^verbatim>\<open>undefined\<close>) is \<open>None\<close>.
\<close>

record model =
  table :: string
  dirty :: obj
  canonical :: obj

definition new :: "string \<Rightarrow> obj option \<Rightarrow> model" where
  "new tbl arg =
     (let data = (case arg of None \<Rightarrow> [] | Some d \<Rightarrow> d);
          this = \<lparr>table = tbl, dirty = [], canonical = []\<rparr>
      in if truthy (obj_get data ''id'')
         then this\<lparr>canonical := data\<rparr>
         else this\<lparr>dirty := data\<rparr>)"

definition set_prop :: "model \<Rightarrow> string \<Rightarrow> jsval \<Rightarrow> jsval \<times> model" where
  \<comment> \<open>\<^verbatim>\<open>set(prop, value) { return this._dirty[prop] = value }\<close>\<close>
  "set_prop this prop v = (v, this\<lparr>dirty := obj_set (dirty this) prop v\<rparr>)"

definition get :: "model \<Rightarrow> string \<Rightarrow> jsval" where
  \<comment> \<open>\<^verbatim>\<open>get(prop) { return this._dirty[prop] || this._canonical[prop] }\<close>\<close>
  "get this prop = js_or (obj_get (dirty this) prop) (obj_get (canonical this) prop)"

definition toObject :: "model \<Rightarrow> obj" where
  \<comment> \<open>\<^verbatim>\<open>toObject() { return Object.assign({}, this._canonical, this._dirty) }\<close>\<close>
  "toObject this = obj_assign (obj_assign [] (canonical this)) (dirty this)"

section \<open>The emptiness guard of \<^verbatim>\<open>save\<close>\<close>

text \<open>
  \<^verbatim>\<open>save()\<close> starts with \<^verbatim>\<open>if (Object.keys(this._dirty) < 1) ...\<close>: an array compared with
  a number. ECMAScript turns the array into a primitive, the string of its elements
  joined by commas, converts that string to a number and compares the numbers, where
  \<open>NaN\<close> compares false. The conversion follows the grammar of string numeric
  literals: surrounding white space is dropped, the empty string is \<open>0\<close>, then come the
  literals \<^verbatim>\<open>0x\<close>, \<^verbatim>\<open>0o\<close>, \<^verbatim>\<open>0b\<close>, \<^verbatim>\<open>Infinity\<close> and signed decimals with fraction and
  exponent; everything else is \<open>NaN\<close>. A \<open>char\<close> is a code unit below 256; of these,
  the white space of the grammar is TAB, LF, VT, FF, CR, SP and the no-break space
  \<^verbatim>\<open>U+00A0\<close>, and the digits are the ASCII ones.
\<close>

fun join :: "string list \<Rightarrow> string" where
  \<comment> \<open>\<^verbatim>\<open>Array.prototype.join\<close> with the default separator, on strings\<close>
  "join [] = []"
| "join [k] = k"
| "join (k # ks) = k @ CHR '','' # join ks"

definition str_ws :: "char \<Rightarrow> bool" where
  \<comment> \<open>TAB, LF, VT, FF, CR, SP, NBSP\<close>
  "str_ws c =
     (c \<in> set [CHR 0x09, CHR 0x0A, CHR 0x0B, CHR 0x0C, CHR 0x0D, CHR 0x20, CHR 0xA0])"

definition trim :: "string \<Rightarrow> string" where
  "trim s = rev (dropWhile str_ws (rev (dropWhile str_ws s)))"

definition digit_of :: "nat \<Rightarrow> char \<Rightarrow> nat option" where
  \<comment> \<open>the value of a digit of the given base\<close>
  "digit_of base c =
     (let n = (of_char c :: nat);
          d = (if 48 \<le> n \<and> n \<le> 57 then Some (n - 48)
               else if 97 \<le> n \<and> n \<le> 102 then Some (n - 87)
               else if 65 \<le> n \<and> n \<le> 70 then Some (n - 55)
               else None)
      in case d of None \<Rightarrow> None | Some v \<Rightarrow> if v < base then Some v else None)"

fun digits_val :: "nat \<Rightarrow> int \<Rightarrow> string \<Rightarrow> int option" where
  "digits_val base acc [] = Some acc"
| "digits_val base acc (c # cs) =
     (case digit_of base c of
        None \<Rightarrow> None
      | Some d \<Rightarrow> digits_val base (acc * int base + int d) cs)"

definition digits1 :: "nat \<Rightarrow> string \<Rightarrow> int option" where
  \<comment> \<open>one digit or more, and nothing else\<close>
  "digits1 base s = (if s = [] then None else digits_val base 0 s)"

text \<open>
  The number a string denotes, before rounding to a double: not a number, an infinity
  with its sign, or sign, decimal mantissa (never negative) and decimal exponent.
\<close>

datatype strnum = NotANumber | Infinite bool | Decimal bool int int

definition signed_integer :: "string \<Rightarrow> int option" where
  "signed_integer s =
     (case s of
        [] \<Rightarrow> None
      | c # r \<Rightarrow>
          if c = CHR ''+'' then digits1 10 r
          else if c = CHR ''-'' then map_option uminus (digits1 10 r)
          else digits1 10 s)"

definition exponent_part :: "string \<Rightarrow> int option" where
  \<comment> \<open>an optional exponent at the end of a decimal literal\<close>
  "exponent_part s =
     (case s of
        [] \<Rightarrow> Some 0
      | c # r \<Rightarrow> if c = CHR ''e'' \<or> c = CHR ''E'' then signed_integer r else None)"

definition is_dec :: "char \<Rightarrow> bool" where
  "is_dec c = (digit_of 10 c \<noteq> None)"

definition unsigned_decimal :: "bool \<Rightarrow> string \<Rightarrow> strnum" where
  "unsigned_decimal neg s =
     (if s = ''Infinity'' then Infinite neg
      else
        let ip = takeWhile is_dec s;
            r1 = dropWhile is_dec s;
            dot = (case r1 of [] \<Rightarrow> False | c # r \<Rightarrow> c = CHR ''.'');
            fp = (if dot then takeWhile is_dec (tl r1) else []);
            r2 = (if dot then dropWhile is_dec (tl r1) else r1)
        in if ip = [] \<and> fp = [] then NotANumber
           else case (digits_val 10 0 (ip @ fp), exponent_part r2) of
                  (Some m, Some e) \<Rightarrow> Decimal neg m (e - int (length fp))
                | _ \<Rightarrow> NotANumber)"

definition non_decimal :: "string \<Rightarrow> strnum option" where
  \<comment> \<open>hexadecimal, octal and binary integer literals; \<open>None\<close> when the prefix is another\<close>
  "non_decimal s =
     (case s of
        c0 # c1 # r \<Rightarrow>
          let radix = (\<lambda>b. Some (case digits1 b r of
                                   None \<Rightarrow> NotANumber
                                 | Some n \<Rightarrow> Decimal False n 0))
          in if c0 \<noteq> CHR ''0'' then None
             else if c1 = CHR ''x'' \<or> c1 = CHR ''X'' then radix 16
             else if c1 = CHR ''o'' \<or> c1 = CHR ''O'' then radix 8
             else if c1 = CHR ''b'' \<or> c1 = CHR ''B'' then radix 2
             else None
      | _ \<Rightarrow> None)"

definition StringToNumber :: "string \<Rightarrow> strnum" where
  "StringToNumber s =
     (let t = trim s
      in case t of
           [] \<Rightarrow> Decimal False 0 0
         | c # r \<Rightarrow>
             (case non_decimal t of
                Some n \<Rightarrow> n
              | None \<Rightarrow>
                  if c = CHR ''+'' then unsigned_decimal False r
                  else if c = CHR ''-'' then unsigned_decimal True r
                  else unsigned_decimal False t))"

text \<open>
  Whether the double nearest to the denoted number is below \<open>1\<close>. Every number that is
  negative or a negative zero is. The largest double below \<open>1\<close> is \<open>1 - 2\<^sup>-\<^sup>5\<^sup>3\<close>, and
  the tie at \<open>1 - 2\<^sup>-\<^sup>5\<^sup>4\<close> rounds to the even neighbour \<open>1\<close>, so a non-negative
  \<open>m * 10\<^sup>e\<close> rounds below \<open>1\<close> exactly when it is below \<open>1 - 2\<^sup>-\<^sup>5\<^sup>4\<close>.
\<close>

fun number_lt_one :: "strnum \<Rightarrow> bool" where
  "number_lt_one NotANumber = False"
| "number_lt_one (Infinite neg) = neg"
| "number_lt_one (Decimal neg m e) =
     (neg \<or> (if 0 \<le> e then m = 0
              else m * 2 ^ 54 < (2 ^ 54 - 1) * 10 ^ nat (- e)))"

definition array_lt_one :: "string list \<Rightarrow> bool" where
  \<comment> \<open>\<^verbatim>\<open>ks < 1\<close> for an array \<open>ks\<close> of strings\<close>
  "array_lt_one ks = number_lt_one (StringToNumber (join ks))"

section \<open>Queries, the pool and the model class\<close>

text \<open>
  The SQL text comes from the \<^verbatim>\<open>mongo-sql\<close> package (\<^verbatim>\<open>static get queryObject() { return
  Query.sql }\<close>): it takes a descriptor object and returns an object with the SQL text
  \<^verbatim>\<open>query\<close> and the parameter array \<^verbatim>\<open>values\<close>. The package is not part of the repository;
  the functions below take the compiler as their argument \<open>sql\<close>. A descriptor carries the
  properties the code sets, each absent (\<open>None\<close>) unless set.
\<close>

record descriptor =
  q_type :: string
  q_table :: string
  q_values :: "obj option"
  q_returning :: "string list option"
  q_where :: "obj option"
  q_limit :: "jsval option"
  q_order :: "string option"
  q_columns :: "string list option"
  q_ifNotExists :: "bool option"
  q_definition :: "obj option"

definition descriptor :: "string \<Rightarrow> string \<Rightarrow> descriptor" where
  \<comment> \<open>\<^verbatim>\<open>{ type: tp, table: tbl }\<close>\<close>
  "descriptor tp tbl =
     \<lparr>q_type = tp, q_table = tbl, q_values = None, q_returning = None, q_where = None,
      q_limit = None, q_order = None, q_columns = None, q_ifNotExists = None,
      q_definition = None\<rparr>"

record compiled =
  c_query :: string
  c_values :: "jsval list"

type_synonym compiler = "descriptor \<Rightarrow> compiled"

text \<open>
  The pool (\<^verbatim>\<open>this.store\<close>, a \<^verbatim>\<open>pg.Pool\<close>) answers \<^verbatim>\<open>query(text, params, callback)\<close> by calling
  back with an error or with a result that has the array \<^verbatim>\<open>rows\<close> and the number
  \<^verbatim>\<open>rowCount\<close> (\<^verbatim>\<open>null\<close> for statements that report no count). The pool is a function of
  the state of the datastore behind it; it is assumed to answer every query.
\<close>

datatype error =
    Error string
  | TypeError
  | Driver string

record result =
  rows :: "obj list"
  rowCount :: "nat option"

type_synonym 'db pool = "string \<Rightarrow> jsval list \<Rightarrow> 'db \<Rightarrow> (string + result) \<times> 'db"

text \<open>
  What a call leaves behind outside the instance: the datastore, the queries handed to
  \<^verbatim>\<open>store.query\<close> and the calls of the logging hook \<^verbatim>\<open>queryLog\<close>, both oldest first.
\<close>

record 'db world =
  db :: 'db
  submitted :: "(string \<times> jsval list) list"
  logged :: "(string option \<times> jsval list option) list"

text \<open>
  The static side of a model class: the table name (\<^verbatim>\<open>static get table()\<close>, computed by
  \<^verbatim>\<open>inflected\<close> from the class name), and the static properties \<^verbatim>\<open>attributes\<close>, \<^verbatim>\<open>fields\<close>
  (\<open>class_fields\<close>) and \<^verbatim>\<open>store\<close>, each \<^verbatim>\<open>undefined\<close> (\<open>None\<close>) until assigned.
\<close>

record 'db model_class =
  class_table :: string
  attributes :: "obj option"
  class_fields :: "obj option"
  store :: "'db pool option"

text \<open>
  A promise settles once: resolved with a value or rejected with an error. \<^verbatim>\<open>runQuery\<close>
  resolves with a model instance, a raw row, \<^verbatim>\<open>undefined\<close>, or an array of instances or of
  raw rows.
\<close>

datatype item = Inst model | RawRow obj | Undef

datatype resolution = Single item | Many "item list"

datatype settled = Resolved resolution | Rejected error

record query_options =
  opt_lean :: bool
  opt_first :: bool
  opt_last :: bool

definition default_options :: query_options where
  \<comment> \<open>\<^verbatim>\<open>{ stream = false, lean = false, first = false, last = true } = {}\<close>\<close>
  "default_options = \<lparr>opt_lean = False, opt_first = False, opt_last = True\<rparr>"

definition queryLog :: "string option \<Rightarrow> jsval list option \<Rightarrow> 'db world \<Rightarrow> 'db world" where
  \<comment> \<open>\<^verbatim>\<open>static queryLog(query, params) { console.info('[QUERY]', query, params) }\<close>\<close>
  "queryLog query params w = w\<lparr>logged := logged w @ [(query, params)]\<rparr>"

definition row_at :: "obj list \<Rightarrow> nat \<Rightarrow> obj option" where
  \<comment> \<open>\<^verbatim>\<open>rows[i]\<close>: \<^verbatim>\<open>undefined\<close> beyond the end of the array\<close>
  "row_at rs i = (if i < length rs then Some (rs ! i) else None)"

definition lean_item :: "obj option \<Rightarrow> item" where
  "lean_item r = (case r of None \<Rightarrow> Undef | Some row \<Rightarrow> RawRow row)"

definition rowCount_positive :: "result \<Rightarrow> bool" where
  \<comment> \<open>\<^verbatim>\<open>result.rowCount > 0\<close>, false for \<^verbatim>\<open>null\<close>\<close>
  "rowCount_positive r = (case rowCount r of None \<Rightarrow> False | Some n \<Rightarrow> 0 < n)"

text \<open>
  The callback that \<^verbatim>\<open>runQuery\<close> passes to \<^verbatim>\<open>store.query\<close>:
  \<^verbatim>\<open>
  (err, result) => {
    if (err) return reject(err)
    if (first && result.rowCount > 0) {
      const firstRow = result.rows[0]
      return resolve(lean ? firstRow : new (this)(firstRow))
    }
    if (last && result.rowCount > 0) {
      const lastRow = result.rows[result.rowCount - 1]
      return resolve(lean ? lastRow : new (this)(lastRow))
    }
    if (lean) return resolve(result.rows)
    const instances = []
    for (const row of result.rows) instances.push(new (this)(row))
    return resolve(instances)
  }
  \<close>
\<close>

definition query_callback ::
  "'db model_class \<Rightarrow> query_options \<Rightarrow> string + result \<Rightarrow> settled" where
  "query_callback cls opts answer =
     (case answer of
        Inl err \<Rightarrow> Rejected (Driver err)
      | Inr res \<Rightarrow>
          if opt_first opts \<and> rowCount_positive res then
            (let firstRow = row_at (rows res) 0
             in Resolved (Single (if opt_lean opts then lean_item firstRow
                                  else Inst (new (class_table cls) firstRow))))
          else if opt_last opts \<and> rowCount_positive res then
            (let lastRow = (case rowCount res of
                              None \<Rightarrow> None
                            | Some n \<Rightarrow> row_at (rows res) (n - 1))
             in Resolved (Single (if opt_lean opts then lean_item lastRow
                                  else Inst (new (class_table cls) lastRow))))
          else if opt_lean opts then Resolved (Many (map RawRow (rows res)))
          else Resolved (Many (map (\<lambda>row. Inst (new (class_table cls) (Some row)))
                                 (rows res))))"

text \<open>
  \<^verbatim>\<open>
  static runQuery(query, params, { stream = false, lean = false, first = false, last = true } = {}) {
    PhobosPostgresModel.queryLog(query, params)
    return new Promise((resolve, reject) => {
      if (!query || !params) return resolve([])
      if (stream) { ... }
      this.store.query(query, params, (err, result) => { ... })
    })
  }
  \<close>
  The model is the call with \<^verbatim>\<open>stream\<close> false, which is how every method of the class calls
  it; with \<^verbatim>\<open>stream\<close> true two callbacks race for the promise. The result is the settled
  promise. A class whose \<^verbatim>\<open>store\<close> is \<^verbatim>\<open>undefined\<close> makes \<^verbatim>\<open>this.store.query\<close> throw inside
  the promise's executor, which rejects the promise.
\<close>

definition runQuery ::
  "'db model_class \<Rightarrow> string option \<Rightarrow> jsval list option \<Rightarrow> query_options \<Rightarrow>
   'db world \<Rightarrow> settled \<times> 'db world" where
  "runQuery cls query params opts w =
     (let w1 = queryLog query params w
      in case (query, params) of
           (Some q, Some ps) \<Rightarrow>
             if q = [] then (Resolved (Many []), w1)
             else (case store cls of
                     None \<Rightarrow> (Rejected TypeError, w1)
                   | Some pool \<Rightarrow>
                       (let (answer, d) = pool q ps (db w1)
                        in (query_callback cls opts answer,
                            w1\<lparr>db := d, submitted := submitted w1 @ [(q, ps)]\<rparr>)))
         | _ \<Rightarrow> (Resolved (Many []), w1))"

section \<open>The methods of an instance that reach the store\<close>

text \<open>
  \<^verbatim>\<open>
  save() {
    // Don't run a save if there is no changes!
    if (Object.keys(this._dirty) < 1) return PhobosPostgresModel.runQuery()
    const queryType = this._canonical.id ? 'update' : 'insert'
    const query = {
      type: queryType, table: this.table, values: this._dirty,
      returning: Object.keys(this.constructor.fields)
    }
    query.where = { id: this._canonical.id }
    const queryObject = PhobosPostgresModel.queryObject(query)
    return this.constructor.runQuery(queryObject.query, queryObject.values)
  }
  \<close>
  A method returns the instance as it leaves it, what the call returned (a thrown error
  or the settled promise) and the world. \<^verbatim>\<open>Object.keys\<close> of an \<^verbatim>\<open>undefined\<close>
  \<^verbatim>\<open>fields\<close> throws a \<^verbatim>\<open>TypeError\<close>. The call \<^verbatim>\<open>PhobosPostgresModel.runQuery()\<close> has
  neither query nor parameters and returns before it looks at its class.
\<close>

definition save ::
  "'db model_class \<Rightarrow> compiler \<Rightarrow> model \<Rightarrow> 'db world \<Rightarrow>
   model \<times> (error + settled) \<times> 'db world" where
  "save cls sql this w =
     (if array_lt_one (obj_keys (dirty this)) then
        (let (p, w') = runQuery cls None None default_options w in (this, Inr p, w'))
      else
        let queryType = (if truthy (obj_get (canonical this) ''id'') then ''update''
                         else ''insert'')
        in case class_fields cls of
             None \<Rightarrow> (this, Inl TypeError, w)
           | Some fs \<Rightarrow>
               (let query = (descriptor queryType (table this))
                              \<lparr>q_values := Some (dirty this),
                               q_returning := Some (obj_keys fs),
                               q_where := Some [(''id'', obj_get (canonical this) ''id'')]\<rparr>;
                    queryObject = sql query;
                    (p, w') = runQuery cls (Some (c_query queryObject))
                                (Some (c_values queryObject)) default_options w
                in (this, Inr p, w')))"


section \<open>The static methods\<close>

text \<open>
  \<^verbatim>\<open>
  static all({ limit = 20, order = 'ASC', sort = 'id' } = {}) {
    const queryObject = this.queryObject({
      type: 'select', table: this.table, limit, order: `${sort} ${order}`
    })
    return this.runQuery(queryObject.query, queryObject.values)
  }
  \<close>
  An option that the caller leaves out is \<open>None\<close> and takes its default.
\<close>

definition or_default :: "'a option \<Rightarrow> 'a \<Rightarrow> 'a" where
  "or_default x d = (case x of None \<Rightarrow> d | Some v \<Rightarrow> v)"

definition all ::
  "'db model_class \<Rightarrow> compiler \<Rightarrow> jsval option \<Rightarrow> string option \<Rightarrow> string option \<Rightarrow>
   'db world \<Rightarrow> settled \<times> 'db world" where
  "all cls sql limit order sort_by w =
     (let queryObject = sql ((descriptor ''select'' (class_table cls))
                               \<lparr>q_limit := Some (or_default limit (Num 20)),
                                q_order := Some (or_default sort_by ''id'' @ '' ''
                                                   @ or_default order ''ASC'')\<rparr>)
      in runQuery cls (Some (c_query queryObject)) (Some (c_values queryObject))
           default_options w)"

text \<open>
  \<^verbatim>\<open>
  static find({ limit = 20, order = 'ASC', sort = 'id', where = {} } = {}) {
    const queryObject = this.queryObject({
      type: 'select', table: this.table, limit, order: `${sort} ${order}`, where
    })
    return this.runQuery(queryObject.query, queryObject.values)
  }
  \<close>
\<close>

definition find_rows ::
  "'db model_class \<Rightarrow> compiler \<Rightarrow> jsval option \<Rightarrow> string option \<Rightarrow> string option \<Rightarrow>
   obj option \<Rightarrow> 'db world \<Rightarrow> settled \<times> 'db world" where
  "find_rows cls sql limit order sort_by wher w =
     (let queryObject = sql ((descriptor ''select'' (class_table cls))
                               \<lparr>q_limit := Some (or_default limit (Num 20)),
                                q_order := Some (or_default sort_by ''id'' @ '' ''
                                                   @ or_default order ''ASC''),
                                q_where := Some (or_default wher [])\<rparr>)
      in runQuery cls (Some (c_query queryObject)) (Some (c_values queryObject))
           default_options w)"

text \<open>
  \<^verbatim>\<open>
  static one(id) {
    if (!id) throw new Error('Model#one() requires an ID parameter')
    const queryObject = this.queryObject({
      type: 'select', table: this.table, limit: 1, where: { id }
    })
    return this.runQuery(queryObject.query, queryObject.values, { first: true })
  }
  \<close>
\<close>

definition one ::
  "'db model_class \<Rightarrow> compiler \<Rightarrow> jsval \<Rightarrow> 'db world \<Rightarrow> (error + settled) \<times> 'db world" where
  "one cls sql ident w =
     (if \<not> truthy ident then (Inl (Error ''Model#one() requires an ID parameter''), w)
      else
        let queryObject = sql ((descriptor ''select'' (class_table cls))
                                 \<lparr>q_limit := Some (Num 1), q_where := Some [(''id'', ident)]\<rparr>);
            (p, w') = runQuery cls (Some (c_query queryObject)) (Some (c_values queryObject))
                        (default_options\<lparr>opt_first := True\<rparr>) w
        in (Inr p, w'))"

text \<open>
  \<^verbatim>\<open>
  static count(where) {
    const queryObject = this.queryObject({
      type: 'select', table: this.table, where, columns: [ 'count(*)' ]
    })
    return this.runQuery(queryObject.query, queryObject.values)
  }
  \<close>
\<close>

definition count ::
  "'db model_class \<Rightarrow> compiler \<Rightarrow> obj option \<Rightarrow> 'db world \<Rightarrow> settled \<times> 'db world" where
  "count cls sql wher w =
     (let queryObject = sql ((descriptor ''select'' (class_table cls))
                               \<lparr>q_where := wher, q_columns := Some [''count(*)'']\<rparr>)
      in runQuery cls (Some (c_query queryObject)) (Some (c_values queryObject))
           default_options w)"

text \<open>
  \<^verbatim>\<open>
  static attribute(name, properties) {
    if (!name) throw new Error('Model.attribute() must provide an attribute name')
    this.attributes = this.attributes || {}
    this.attributes[name] = properties
  }
  \<close>
\<close>

definition attribute ::
  "'db model_class \<Rightarrow> string \<Rightarrow> jsval \<Rightarrow> error + 'db model_class" where
  "attribute cls name properties =
     (if name = [] then Inl (Error ''Model.attribute() must provide an attribute name'')
      else Inr (cls\<lparr>attributes := Some (obj_set (or_default (attributes cls) []) name
                                             properties)\<rparr>))"

text \<open>
  \<^verbatim>\<open>
  static init(db) {
    this.fields = { id: { type: 'serial', primaryKey: true } }
    for (const attr in this.attributes) {
      this.fields[attr] = this.attributes[attr]
    }
    this.fields.created_at = { type: 'timestamptz', default: 'now()' }
    this.fields.updated_at = { type: 'timestamptz', default: 'now()' }
    const queryObject = this.queryObject({
      type: 'create-table', table: this.table, ifNotExists: true, definition: this.fields
    })
    this.store = db
    return this.runQuery(queryObject.query, queryObject.values)
  }
  \<close>
  A \<^verbatim>\<open>for ... in\<close> over \<^verbatim>\<open>undefined\<close> runs no iteration.
\<close>

definition serial_key :: jsval where
  "serial_key = Obj [(''type'', Str ''serial''), (''primaryKey'', Bool True)]"

definition timestamp_now :: jsval where
  "timestamp_now = Obj [(''type'', Str ''timestamptz''), (''default'', Str ''now()'')]"

definition init_fields :: "obj option \<Rightarrow> obj" where
  \<comment> \<open>the value of \<^verbatim>\<open>this.fields\<close> that \<^verbatim>\<open>init\<close> builds from \<^verbatim>\<open>this.attributes\<close>\<close>
  "init_fields attrs =
     (let fields0 = [(''id'', serial_key)];
          fields1 = (case attrs of
                       None \<Rightarrow> fields0
                     | Some ats \<Rightarrow>
                         foldl (\<lambda>fs attr. obj_set fs attr (obj_get ats attr)) fields0
                           (obj_keys ats));
          fields2 = obj_set fields1 ''created_at'' timestamp_now
      in obj_set fields2 ''updated_at'' timestamp_now)"

definition init ::
  "'db model_class \<Rightarrow> compiler \<Rightarrow> 'db pool \<Rightarrow> 'db world \<Rightarrow>
   'db model_class \<times> settled \<times> 'db world" where
  "init cls sql pool w =
     (let fs = init_fields (attributes cls);
          queryObject = sql ((descriptor ''create-table'' (class_table cls))
                               \<lparr>q_ifNotExists := Some True, q_definition := Some fs\<rparr>);
          cls' = cls\<lparr>class_fields := Some fs, store := Some pool\<rparr>;
          (p, w') = runQuery cls' (Some (c_query queryObject)) (Some (c_values queryObject))
                      default_options w
      in (cls', p, w'))"

section \<open>A model class to evaluate with\<close>

text \<open>
  The class of \<^verbatim>\<open>test/test.js\<close>: \<^verbatim>\<open>class Model extends _Module.Model { }\<close> with the
  attribute \<^verbatim>\<open>username\<close> of type \<^verbatim>\<open>varchar(30)\<close>, table \<^verbatim>\<open>models\<close>. In place of the
  database there is a pool that answers every query with the same rows, and in place of
  \<^verbatim>\<open>mongo-sql\<close> a compiler that returns the type and the table of the descriptor as text.
\<close>

definition example_sql :: compiler where
  "example_sql d = \<lparr>c_query = q_type d @ '' '' @ q_table d, c_values = []\<rparr>"

definition example_pool :: "obj list \<Rightarrow> unit pool" where
  "example_pool rs q ps d = (Inr \<lparr>rows = rs, rowCount = Some (length rs)\<rparr>, d)"

definition example_class :: "obj list \<Rightarrow> unit model_class" where
  "example_class rs =
     \<lparr>class_table = ''models'',
      attributes = Some [(''username'', Obj [(''type'', Str ''varchar(30)'')])],
      class_fields = Some (init_fields (Some [(''username'', Obj [(''type'', Str ''varchar(30)'')])])),
      store = Some (example_pool rs)\<rparr>"


definition empty_world :: "unit world" where
  "empty_world = \<lparr>db = (), submitted = [], logged = []\<rparr>"

section \<open>Properties of plain objects\<close>

lemma map_of_obj_set: "map_of (obj_set ob k v) = (map_of ob)(k \<mapsto> v)"
  by (induction ob) (auto simp: fun_eq_iff)

lemma obj_get_obj_set: "obj_get (obj_set ob k v) k' = (if k' = k then v else obj_get ob k')"
  by (simp add: obj_get_def map_of_obj_set)

lemma obj_set_fresh: "k \<notin> fst ` set ob \<Longrightarrow> obj_set ob k v = ob @ [(k, v)]"
  by (induction ob) auto

lemma foldl_obj_set_fresh:
  "distinct (map fst (t @ s)) \<Longrightarrow> foldl (\<lambda>t (k, v). obj_set t k v) t s = t @ s"
proof (induction s arbitrary: t)
  case Nil
  then show ?case by simp
next
  case (Cons p s)
  obtain k v where p: "p = (k, v)" by (cases p)
  from Cons.prems p have fresh: "k \<notin> fst ` set t" by auto
  from Cons.prems p have "distinct (map fst ((t @ [(k, v)]) @ s))" by auto
  then have "foldl (\<lambda>t (k, v). obj_set t k v) (t @ [(k, v)]) s = (t @ [(k, v)]) @ s"
    by (rule Cons.IH)
  with fresh p show ?case by (simp add: obj_set_fresh)
qed

lemma obj_assign_empty_target: "wf_obj src \<Longrightarrow> obj_assign [] src = src"
  using foldl_obj_set_fresh [of "[]" src] by (simp add: obj_assign_def wf_obj_def obj_keys_def)

lemma obj_assign_empty_src: "obj_assign target [] = target"
  by (simp add: obj_assign_def)

lemma map_of_foldl_obj_set:
  "distinct (map fst s) \<Longrightarrow>
   map_of (foldl (\<lambda>t (k, v). obj_set t k v) t s) x = (map_of t ++ map_of s) x"
proof (induction s arbitrary: t)
  case Nil
  then show ?case by simp
next
  case (Cons p s)
  obtain k v where p: "p = (k, v)" by (cases p)
  from Cons.prems p have fresh: "map_of s k = None" and d: "distinct (map fst s)"
    by (auto simp: map_of_eq_None_iff)
  have "map_of (foldl (\<lambda>t (k, v). obj_set t k v) (obj_set t k v) s) x
          = ((map_of t)(k \<mapsto> v) ++ map_of s) x"
    by (simp only: Cons.IH [OF d] map_of_obj_set)
  also have "\<dots> = (map_of t ++ map_of (p # s)) x"
    using fresh p by (cases "x = k") (simp_all add: map_add_def split: option.splits)
  finally show ?case by (simp only: p foldl_Cons prod.case)
qed

lemma map_of_obj_assign:
  "wf_obj src \<Longrightarrow> map_of (obj_assign target src) = map_of target ++ map_of src"
  by (rule ext) (simp add: obj_assign_def wf_obj_def obj_keys_def map_of_foldl_obj_set)

lemma falsy_values:
  "\<not> truthy v \<longleftrightarrow> v \<in> {Undefined, Null, Bool False, Num 0, NaN, Str []}"
  by (cases v) auto

lemma obj_get_absent: "k \<notin> set (obj_keys ob) \<Longrightarrow> obj_get ob k = Undefined"
  by (simp add: obj_get_def obj_keys_def map_of_eq_None_iff [THEN iffD2])


section \<open>Reading and writing fields\<close>

lemma get_truthy_dirty:
  "truthy (obj_get (dirty this) prop) \<Longrightarrow> get this prop = obj_get (dirty this) prop"
  by (simp add: get_def js_or_def)

lemma get_no_dirty:
  "prop \<notin> set (obj_keys (dirty this)) \<Longrightarrow> get this prop = obj_get (canonical this) prop"
  by (simp add: get_def js_or_def obj_get_absent)

text \<open>
  C1. \<^verbatim>\<open>get(field)\<close> is to return the dirty value whenever the dirty map has an entry,
  falsy values included. The code reads \<^verbatim>\<open>this._dirty[prop] || this._canonical[prop]\<close>, so
  a falsy dirty value is passed over: after \<^verbatim>\<open>set('count', 0)\<close> on an instance built from the
  row \<^verbatim>\<open>{ id: 1, count: 5 }\<close>, \<^verbatim>\<open>get('count')\<close> is still \<open>5\<close>, while \<^verbatim>\<open>toObject()\<close>
  reports \<open>0\<close>; on a new instance \<^verbatim>\<open>get('count')\<close> is \<^verbatim>\<open>undefined\<close> after the same call.
\<close>

theorem get_passes_over_falsy_dirty:
  "get (snd (set_prop (new ''models'' (Some [(''id'', Num 1), (''count'', Num 5)]))
                ''count'' (Num 0))) ''count'' = Num 5
   \<and> obj_get (dirty (snd (set_prop (new ''models'' (Some [(''id'', Num 1), (''count'', Num 5)]))
                ''count'' (Num 0)))) ''count'' = Num 0
   \<and> obj_get (toObject (snd (set_prop (new ''models'' (Some [(''id'', Num 1), (''count'', Num 5)]))
                ''count'' (Num 0)))) ''count'' = Num 0
   \<and> get (snd (set_prop (new ''models'' None) ''count'' (Num 0))) ''count'' = Undefined"
  by (simp add: get_def js_or_def set_prop_def new_def toObject_def obj_assign_def obj_get_def)

section \<open>The plain object of an instance\<close>

text \<open>
  C7. \<^verbatim>\<open>toObject()\<close> is the key-wise union of the canonical and the dirty map, and where
  both define a key the dirty value is taken: as maps, the result is the canonical map
  overridden by the dirty map, and its keys are the keys of either.
\<close>

theorem toObject_union:
  "wf_obj (canonical this) \<Longrightarrow> wf_obj (dirty this) \<Longrightarrow>
   map_of (toObject this) = map_of (canonical this) ++ map_of (dirty this)
   \<and> set (obj_keys (toObject this))
       = set (obj_keys (canonical this)) \<union> set (obj_keys (dirty this))"
proof -
  assume c: "wf_obj (canonical this)" and d: "wf_obj (dirty this)"
  have m: "map_of (toObject this) = map_of (canonical this) ++ map_of (dirty this)"
    using c d by (simp add: toObject_def map_of_obj_assign)
  have "fst ` set (toObject this) = dom (map_of (toObject this))"
    by (simp add: dom_map_of_conv_image_fst)
  also have "\<dots> = dom (map_of (canonical this)) \<union> dom (map_of (dirty this))"
    by (simp add: m Un_commute)
  finally have "set (obj_keys (toObject this))
      = set (obj_keys (canonical this)) \<union> set (obj_keys (dirty this))"
    by (simp add: obj_keys_def dom_map_of_conv_image_fst)
  with m show ?thesis by simp
qed

theorem toObject_union_witness:
  "wf_obj [(''id'', Num 1), (''username'', Str ''Billy'')]
   \<and> wf_obj [(''username'', Str ''helen''), (''age'', Num 0)]
   \<and> map_of (toObject \<lparr>table = ''models'',
                         dirty = [(''username'', Str ''helen''), (''age'', Num 0)],
                         canonical = [(''id'', Num 1), (''username'', Str ''Billy'')]\<rparr>)
       = map_of [(''id'', Num 1), (''username'', Str ''Billy'')]
           ++ map_of [(''username'', Str ''helen''), (''age'', Num 0)]
   \<and> toObject \<lparr>table = ''models'',
                 dirty = [(''username'', Str ''helen''), (''age'', Num 0)],
                 canonical = [(''id'', Num 1), (''username'', Str ''Billy'')]\<rparr>
       = [(''id'', Num 1), (''username'', Str ''helen''), (''age'', Num 0)]"
  using toObject_union [of "\<lparr>table = ''models'',
                         dirty = [(''username'', Str ''helen''), (''age'', Num 0)],
                         canonical = [(''id'', Num 1), (''username'', Str ''Billy'')]\<rparr>"]
  by (simp add: wf_obj_def obj_keys_def toObject_def obj_assign_def)

section \<open>Construction\<close>

lemma new_truthy_id:
  "truthy (obj_get data ''id'') \<Longrightarrow>
   new tbl (Some data) = \<lparr>table = tbl, dirty = [], canonical = data\<rparr>"
  by (simp add: new_def)

lemma new_falsy_id:
  "\<not> truthy (obj_get data ''id'') \<Longrightarrow>
   new tbl (Some data) = \<lparr>table = tbl, dirty = data, canonical = []\<rparr>"
  by (simp add: new_def)

lemma toObject_new: "wf_obj row \<Longrightarrow> toObject (new tbl (Some row)) = row"
  by (cases "truthy (obj_get row ''id'')")
     (simp_all add: new_truthy_id new_falsy_id toObject_def obj_assign_empty_target
        obj_assign_empty_src)

text \<open>
  C8, as stated: an instance built from a row that contains an \<^verbatim>\<open>id\<close> field gives the
  row back from \<^verbatim>\<open>toObject()\<close> with nothing coming from the dirty map. A row whose \<^verbatim>\<open>id\<close> is
  \<open>0\<close> contains the field, yet the constructor stores the whole row as the dirty map.
\<close>

theorem roundtrip_id_zero_counterexample:
  "''id'' \<in> set (obj_keys [(''id'', Num 0), (''username'', Str ''Billy'')])
   \<and> dirty (new ''models'' (Some [(''id'', Num 0), (''username'', Str ''Billy'')]))
       = [(''id'', Num 0), (''username'', Str ''Billy'')]
   \<and> dirty (new ''models'' (Some [(''id'', Num 0), (''username'', Str ''Billy'')])) \<noteq> []
   \<and> canonical (new ''models'' (Some [(''id'', Num 0), (''username'', Str ''Billy'')])) = []"
  by (simp add: new_def obj_get_def obj_keys_def)

text \<open>
  C8, amended: for every row, \<^verbatim>\<open>toObject()\<close> of the instance built from it is the row,
  field for field; when the \<^verbatim>\<open>id\<close> of the row is truthy the row is the canonical map and
  the dirty map is empty, so that nothing comes from the dirty map; when it is falsy the
  row is the dirty map and the canonical map is empty.
\<close>

theorem roundtrip_row:
  "wf_obj row \<Longrightarrow>
   toObject (new tbl (Some row)) = row
   \<and> (truthy (obj_get row ''id'') \<longrightarrow>
        dirty (new tbl (Some row)) = [] \<and> canonical (new tbl (Some row)) = row)
   \<and> (\<not> truthy (obj_get row ''id'') \<longrightarrow>
        dirty (new tbl (Some row)) = row \<and> canonical (new tbl (Some row)) = [])"
  by (simp add: toObject_new new_truthy_id new_falsy_id)

theorem roundtrip_row_witness:
  "wf_obj [(''id'', Num 7), (''username'', Str ''Billy'')]
   \<and> truthy (obj_get [(''id'', Num 7), (''username'', Str ''Billy'')] ''id'')
   \<and> toObject (new ''models'' (Some [(''id'', Num 7), (''username'', Str ''Billy'')]))
       = [(''id'', Num 7), (''username'', Str ''Billy'')]
   \<and> dirty (new ''models'' (Some [(''id'', Num 7), (''username'', Str ''Billy'')])) = []
   \<and> canonical (new ''models'' (Some [(''id'', Num 7), (''username'', Str ''Billy'')]))
       = [(''id'', Num 7), (''username'', Str ''Billy'')]"
  using roundtrip_row [of "[(''id'', Num 7), (''username'', Str ''Billy'')]" "''models''"]
  by (simp add: wf_obj_def obj_keys_def obj_get_def)

text \<open>
  C10. A data object whose \<^verbatim>\<open>id\<close> is falsy (absent, \<open>0\<close>, the empty string, \<^verbatim>\<open>null\<close>, and
  also \<^verbatim>\<open>undefined\<close>, \<^verbatim>\<open>false\<close> and \<open>NaN\<close>) becomes the dirty map and the canonical map stays
  empty; the data becomes the canonical map only when its \<^verbatim>\<open>id\<close> is truthy.
\<close>

theorem constructor_routes_by_id:
  "(''id'' \<notin> set (obj_keys data)
      \<or> obj_get data ''id'' \<in> {Num 0, Str [], Null, Undefined, Bool False, NaN} \<longrightarrow>
      dirty (new tbl (Some data)) = data \<and> canonical (new tbl (Some data)) = [])
   \<and> (truthy (obj_get data ''id'') \<longrightarrow>
        canonical (new tbl (Some data)) = data \<and> dirty (new tbl (Some data)) = [])
   \<and> (canonical (new tbl (Some data)) = data \<and> data \<noteq> [] \<longrightarrow>
        truthy (obj_get data ''id''))"
proof (intro conjI impI)
  assume "''id'' \<notin> set (obj_keys data)
      \<or> obj_get data ''id'' \<in> {Num 0, Str [], Null, Undefined, Bool False, NaN}"
  then have f: "\<not> truthy (obj_get data ''id'')"
    by (auto simp: obj_get_absent)
  show "dirty (new tbl (Some data)) = data" using f by (simp add: new_falsy_id)
  show "canonical (new tbl (Some data)) = []" using f by (simp add: new_falsy_id)
next
  assume t: "truthy (obj_get data ''id'')"
  show "canonical (new tbl (Some data)) = data" using t by (simp add: new_truthy_id)
  show "dirty (new tbl (Some data)) = []" using t by (simp add: new_truthy_id)
next
  assume "canonical (new tbl (Some data)) = data \<and> data \<noteq> []"
  then show "truthy (obj_get data ''id'')"
    by (cases "truthy (obj_get data ''id'')") (auto simp: new_falsy_id)
qed

theorem constructor_routes_by_id_witness:
  "obj_get [(''id'', Num 0), (''username'', Str ''Billy'')] ''id''
      \<in> {Num 0, Str [], Null, Undefined, Bool False, NaN}
   \<and> dirty (new ''models'' (Some [(''id'', Num 0), (''username'', Str ''Billy'')]))
       = [(''id'', Num 0), (''username'', Str ''Billy'')]
   \<and> canonical (new ''models'' (Some [(''id'', Num 0), (''username'', Str ''Billy'')])) = []
   \<and> ''id'' \<notin> set (obj_keys [(''username'', Str ''Billy'')])
   \<and> dirty (new ''models'' (Some [(''username'', Str ''Billy'')]))
       = [(''username'', Str ''Billy'')]
   \<and> truthy (obj_get [(''id'', Num 3)] ''id'')
   \<and> canonical (new ''models'' (Some [(''id'', Num 3)])) = [(''id'', Num 3)]
   \<and> dirty (new ''models'' (Some [(''id'', Num 3)])) = []"
  using constructor_routes_by_id [of "[(''id'', Num 0), (''username'', Str ''Billy'')]" "''models''"]
    constructor_routes_by_id [of "[(''username'', Str ''Billy'')]" "''models''"]
    constructor_routes_by_id [of "[(''id'', Num 3)]" "''models''"]
  by (simp add: obj_get_def obj_keys_def)

section \<open>Running queries\<close>

lemma array_lt_one_Nil: "array_lt_one []"
  by (simp add: array_lt_one_def StringToNumber_def trim_def)


text \<open>
  The guard of \<^verbatim>\<open>save()\<close> is not a test for emptiness: a single key that reads as a
  number below \<open>1\<close> passes for no change, two keys or more never do.
\<close>

lemma numeric_key_lt_one: "array_lt_one [''0'']"
  by code_simp

lemma two_keys_not_lt_one: "\<not> array_lt_one [''0'', ''0'']"
  by code_simp

lemma blank_key_lt_one: "array_lt_one [[CHR 0xA0]]" and "array_lt_one ['' '']"
  by code_simp+

lemma runQuery_nothing:
  "runQuery cls None None opts w = (Resolved (Many []), queryLog None None w)"
  by (simp add: runQuery_def)

lemma runQuery_answered:
  "q \<noteq> [] \<Longrightarrow> store cls = Some pool \<Longrightarrow> pool q ps (db w) = (answer, d) \<Longrightarrow>
   runQuery cls (Some q) (Some ps) opts w
     = (query_callback cls opts answer,
        w\<lparr>db := d, submitted := submitted w @ [(q, ps)],
          logged := logged w @ [(Some q, Some ps)]\<rparr>)"
  by (simp add: runQuery_def queryLog_def)

lemma query_callback_last:
  "rowCount res = Some n \<Longrightarrow> 0 < n \<Longrightarrow> row_at (rows res) (n - 1) = Some row \<Longrightarrow>
   query_callback cls default_options (Inr res)
     = Resolved (Single (Inst (new (class_table cls) (Some row))))"
  by (simp add: query_callback_def default_options_def rowCount_positive_def)




section \<open>Saving\<close>

text \<open>
  C4. \<^verbatim>\<open>save()\<close> on an instance whose dirty map is empty hands no query to the pool and
  resolves (to the empty array) with the canonical map as it was: the instance is
  unchanged, and of the world only the log of the hook grows, by the call without query.
\<close>

theorem save_clean_issues_no_query:
  "dirty this = [] \<Longrightarrow>
   save cls sql this w
     = (this, Inr (Resolved (Many [])), w\<lparr>logged := logged w @ [(None, None)]\<rparr>)
   \<and> submitted (snd (snd (save cls sql this w))) = submitted w
   \<and> db (snd (snd (save cls sql this w))) = db w
   \<and> canonical (fst (save cls sql this w)) = canonical this"
  by (simp add: save_def obj_keys_def array_lt_one_Nil runQuery_nothing queryLog_def)

theorem save_clean_issues_no_query_witness:
  "dirty (new ''models'' (Some [(''id'', Num 1), (''username'', Str ''Billy'')])) = []
   \<and> save (example_class [[(''id'', Num 1), (''username'', Str ''Billy'')]]) example_sql
        (new ''models'' (Some [(''id'', Num 1), (''username'', Str ''Billy'')])) empty_world
       = (\<lparr>table = ''models'', dirty = [],
           canonical = [(''id'', Num 1), (''username'', Str ''Billy'')]\<rparr>,
          Inr (Resolved (Many [])),
          \<lparr>db = (), submitted = [], logged = [(None, None)]\<rparr>)"
  using save_clean_issues_no_query
          [of "new ''models'' (Some [(''id'', Num 1), (''username'', Str ''Billy'')])"
              "example_class [[(''id'', Num 1), (''username'', Str ''Billy'')]]"
              example_sql empty_world]
  by (simp add: new_def obj_get_def empty_world_def)




section \<open>Fetching\<close>

lemma all_last_row_of_any_result:
  assumes "c_query (sql ((descriptor ''select'' (class_table cls))
                           \<lparr>q_limit := Some (or_default limit (Num 20)),
                            q_order := Some (or_default sort_by ''id'' @ '' ''
                                               @ or_default order ''ASC'')\<rparr>)) \<noteq> []"
    and "store cls = Some pool"
    and "\<And>q ps. pool q ps (db w) = (Inr \<lparr>rows = rs, rowCount = Some (length rs)\<rparr>, d)"
    and "rs \<noteq> []"
  shows "fst (all cls sql limit order sort_by w)
     = Resolved (Single (Inst (new (class_table cls) (Some (last rs)))))"
proof -
  have "row_at rs (length rs - 1) = Some (last rs)"
    using \<open>rs \<noteq> []\<close> by (simp add: row_at_def last_conv_nth)
  then have "query_callback cls default_options (Inr \<lparr>rows = rs, rowCount = Some (length rs)\<rparr>)
      = Resolved (Single (Inst (new (class_table cls) (Some (last rs)))))"
    using \<open>rs \<noteq> []\<close> query_callback_last [of "\<lparr>rows = rs, rowCount = Some (length rs)\<rparr>"
        "length rs" "last rs" cls]
    by simp
  then show ?thesis
    using assms(1-3) by (simp add: all_def Let_def runQuery_answered)
qed

text \<open>
  C3. \<^verbatim>\<open>all()\<close> is to resolve to every returned row as an instance, in the order of the
  result. It calls \<^verbatim>\<open>runQuery\<close> without options, where \<^verbatim>\<open>last\<close> defaults to true: for the two
  rows of Billy and helen the promise resolves to the single instance of the last row,
  helen.
\<close>

theorem all_resolves_single_last_row:
  "all (example_class [[(''id'', Num 1), (''username'', Str ''Billy'')],
                       [(''id'', Num 2), (''username'', Str ''helen'')]])
     example_sql None None None empty_world
   = (Resolved (Single (Inst \<lparr>table = ''models'', dirty = [],
                             canonical = [(''id'', Num 2), (''username'', Str ''helen'')]\<rparr>)),
      \<lparr>db = (), submitted = [(''select models'', [])],
       logged = [(Some ''select models'', Some [])]\<rparr>)"
  by (simp add: all_def new_def obj_get_def example_class_def
      example_sql_def example_pool_def empty_world_def descriptor_def runQuery_def queryLog_def
      query_callback_def default_options_def rowCount_positive_def row_at_def)

text \<open>
  C5. \<^verbatim>\<open>one(id)\<close> with a falsy \<^verbatim>\<open>id\<close> (\<open>0\<close>, \<^verbatim>\<open>null\<close>, \<^verbatim>\<open>undefined\<close>, the empty string, and
  also \<^verbatim>\<open>false\<close> and \<open>NaN\<close>) throws at once, before a query is compiled, logged or handed
  to the pool: the call returns the thrown error and the world as it was. The error is
  the \<^verbatim>\<open>Error\<close> with the message \<^verbatim>\<open>Model#one() requires an ID parameter\<close>, the code's
  form of a validation error.
\<close>

theorem one_falsy_id_throws:
  "ident \<in> {Num 0, Null, Undefined, Str [], Bool False, NaN} \<Longrightarrow>
   one cls sql ident w = (Inl (Error ''Model#one() requires an ID parameter''), w)"
  by (auto simp: one_def)

theorem one_falsy_id_throws_witness:
  "Num 0 \<in> {Num 0, Null, Undefined, Str [], Bool False, NaN}
   \<and> one (example_class [[(''id'', Num 1)]]) example_sql (Num 0) empty_world
       = (Inl (Error ''Model#one() requires an ID parameter''), empty_world)
   \<and> one (example_class [[(''id'', Num 1)]]) example_sql Null empty_world
       = (Inl (Error ''Model#one() requires an ID parameter''), empty_world)
   \<and> one (example_class [[(''id'', Num 1)]]) example_sql Undefined empty_world
       = (Inl (Error ''Model#one() requires an ID parameter''), empty_world)
   \<and> one (example_class [[(''id'', Num 1)]]) example_sql (Str []) empty_world
       = (Inl (Error ''Model#one() requires an ID parameter''), empty_world)"
  using one_falsy_id_throws [of "Num 0" "example_class [[(''id'', Num 1)]]" example_sql empty_world]
    one_falsy_id_throws [of Null "example_class [[(''id'', Num 1)]]" example_sql empty_world]
    one_falsy_id_throws [of Undefined "example_class [[(''id'', Num 1)]]" example_sql empty_world]
    one_falsy_id_throws [of "Str []" "example_class [[(''id'', Num 1)]]" example_sql empty_world]
  by simp

section \<open>Initialising the schema\<close>

lemma map_of_copy_attributes:
  "map_of (foldl (\<lambda>fs attr. obj_set fs attr (obj_get ats attr)) f0 ks) x
     = (if x \<in> set ks then Some (obj_get ats x) else map_of f0 x)"
  by (induction ks arbitrary: f0) (simp_all add: map_of_obj_set)

lemma map_of_init_fields:
  "map_of (init_fields attrs)
     = ([''id'' \<mapsto> serial_key] ++ map_of (or_default attrs []))
         (''created_at'' \<mapsto> timestamp_now, ''updated_at'' \<mapsto> timestamp_now)"
proof -
  define fields1 where
    "fields1 = (case attrs of
                  None \<Rightarrow> [(''id'', serial_key)]
                | Some ats \<Rightarrow>
                    foldl (\<lambda>fs attr. obj_set fs attr (obj_get ats attr)) [(''id'', serial_key)]
                      (obj_keys ats))"
  have unfolded: "init_fields attrs
      = obj_set (obj_set fields1 ''created_at'' timestamp_now) ''updated_at'' timestamp_now"
    by (simp only: init_fields_def Let_def fields1_def)
  have copied: "map_of fields1 = [''id'' \<mapsto> serial_key] ++ map_of (or_default attrs [])"
  proof (cases attrs)
    case None
    then show ?thesis by (simp add: fields1_def or_default_def)
  next
    case (Some ats)
    have "map_of fields1 x = ([''id'' \<mapsto> serial_key] ++ map_of ats) x" for x
    proof (cases "map_of ats x")
      case None
      then have "x \<notin> set (obj_keys ats)"
        by (simp add: obj_keys_def map_of_eq_None_iff)
      with None show ?thesis
        by (simp add: fields1_def Some map_of_copy_attributes map_add_def)
    next
      case (Some v)
      then have "x \<in> set (obj_keys ats)"
        by (force simp: obj_keys_def dest: map_of_SomeD)
      then have "map_of fields1 x = Some (obj_get ats x)"
        by (simp add: fields1_def \<open>attrs = Some ats\<close> map_of_copy_attributes)
      with Some show ?thesis
        by (simp add: map_add_def obj_get_def)
    qed
    then have "map_of fields1 = [''id'' \<mapsto> serial_key] ++ map_of ats"
      by (rule ext)
    with Some show ?thesis by (simp add: or_default_def)
  qed
  show ?thesis by (simp only: unfolded copied map_of_obj_set)
qed

lemma class_fields_init:
  "class_fields (fst (init cls sql pool w)) = Some (init_fields (attributes cls))"
  by (simp add: init_def Let_def split_beta)

text \<open>
  C9, as stated: after \<^verbatim>\<open>init()\<close> the \<^verbatim>\<open>fields\<close> of every class hold an \<^verbatim>\<open>id\<close> that is a
  serial primary key, whatever attributes the user declared. \<^verbatim>\<open>init\<close> sets \<^verbatim>\<open>id\<close> first and
  copies the declared attributes over it: for a class that declares
  \<^verbatim>\<open>attribute('id', { type: 'uuid' })\<close> the \<^verbatim>\<open>id\<close> column is the declared one.
\<close>

theorem init_declared_id_counterexample:
  "class_fields (fst (init \<lparr>class_table = ''models'',
                           attributes = Some [(''id'', Obj [(''type'', Str ''uuid'')])],
                           class_fields = None, store = None\<rparr>
                     example_sql (example_pool []) empty_world))
     = Some [(''id'', Obj [(''type'', Str ''uuid'')]), (''created_at'', timestamp_now),
             (''updated_at'', timestamp_now)]
   \<and> obj_get [(''id'', Obj [(''type'', Str ''uuid'')]), (''created_at'', timestamp_now),
               (''updated_at'', timestamp_now)] ''id'' = Obj [(''type'', Str ''uuid'')]
   \<and> Obj [(''type'', Str ''uuid'')] \<noteq> serial_key"
  by (simp add: init_def Let_def split_beta init_fields_def obj_keys_def obj_get_def serial_key_def)

text \<open>
  C9, amended: after \<^verbatim>\<open>init()\<close> the \<^verbatim>\<open>fields\<close> of the class hold \<^verbatim>\<open>created_at\<close> and
  \<^verbatim>\<open>updated_at\<close> with the mandatory timestamp definitions, every declared attribute of
  another name with its declared definition, and \<^verbatim>\<open>id\<close> as the serial primary key unless
  an attribute named \<^verbatim>\<open>id\<close> is declared, whose definition then stands in its place. The
  pool is bound to the class.
\<close>

theorem init_fields_mandatory_and_declared:
  "class_fields (fst (init cls sql pool w)) = Some (init_fields (attributes cls))
   \<and> store (fst (init cls sql pool w)) = Some pool
   \<and> map_of (init_fields (attributes cls))
       = ([''id'' \<mapsto> serial_key] ++ map_of (or_default (attributes cls) []))
           (''created_at'' \<mapsto> timestamp_now, ''updated_at'' \<mapsto> timestamp_now)
   \<and> obj_get (init_fields (attributes cls)) ''created_at'' = timestamp_now
   \<and> obj_get (init_fields (attributes cls)) ''updated_at'' = timestamp_now
   \<and> (''id'' \<notin> set (obj_keys (or_default (attributes cls) [])) \<longrightarrow>
        obj_get (init_fields (attributes cls)) ''id'' = serial_key)
   \<and> (\<forall>a \<in> set (obj_keys (or_default (attributes cls) [])).
        a \<noteq> ''created_at'' \<and> a \<noteq> ''updated_at'' \<longrightarrow>
        obj_get (init_fields (attributes cls)) a = obj_get (or_default (attributes cls) []) a)"
proof -
  let ?ats = "or_default (attributes cls) []"
  let ?fs = "init_fields (attributes cls)"
  have absent: "map_of ?ats a = None" if "a \<notin> set (obj_keys ?ats)" for a
    using that by (simp add: obj_keys_def map_of_eq_None_iff)
  have present: "\<exists>v. map_of ?ats a = Some v" if "a \<in> set (obj_keys ?ats)" for a
    using that by (cases "map_of ?ats a") (simp_all add: obj_keys_def map_of_eq_None_iff)
  have "store (fst (init cls sql pool w)) = Some pool"
    by (simp add: init_def Let_def split_beta)
  moreover have "obj_get ?fs ''created_at'' = timestamp_now"
    by (simp add: obj_get_def map_of_init_fields)
  moreover have "obj_get ?fs ''updated_at'' = timestamp_now"
    by (simp add: obj_get_def map_of_init_fields)
  moreover have "obj_get ?fs ''id'' = serial_key" if "''id'' \<notin> set (obj_keys ?ats)"
    using absent [OF that] by (simp add: obj_get_def map_of_init_fields map_add_def)
  moreover have "obj_get ?fs a = obj_get ?ats a"
    if "a \<in> set (obj_keys ?ats)" "a \<noteq> ''created_at''" "a \<noteq> ''updated_at''" for a
    using present [OF that(1)] that(2,3)
    by (auto simp: obj_get_def map_of_init_fields map_add_def)
  ultimately show ?thesis
    by (simp add: class_fields_init map_of_init_fields)
qed

theorem init_fields_mandatory_and_declared_witness:
  "''id'' \<notin> set (obj_keys [(''username'', Obj [(''type'', Str ''varchar(30)'')])])
   \<and> ''username'' \<in> set (obj_keys [(''username'', Obj [(''type'', Str ''varchar(30)'')])])
   \<and> class_fields (fst (init \<lparr>class_table = ''models'',
                               attributes = Some [(''username'', Obj [(''type'', Str ''varchar(30)'')])],
                               class_fields = None, store = None\<rparr>
                         example_sql (example_pool []) empty_world))
       = Some [(''id'', serial_key), (''username'', Obj [(''type'', Str ''varchar(30)'')]),
               (''created_at'', timestamp_now), (''updated_at'', timestamp_now)]
   \<and> obj_get (init_fields (Some [(''username'', Obj [(''type'', Str ''varchar(30)'')])])) ''id''
       = serial_key
   \<and> obj_get (init_fields (Some [(''username'', Obj [(''type'', Str ''varchar(30)'')])]))
        ''username'' = Obj [(''type'', Str ''varchar(30)'')]"
  using init_fields_mandatory_and_declared
    [of "\<lparr>class_table = ''models'',
          attributes = Some [(''username'', Obj [(''type'', Str ''varchar(30)'')])],
          class_fields = None, store = None\<rparr>" example_sql "example_pool []" empty_world]
  by (simp add: init_fields_def obj_keys_def obj_get_def or_default_def)

end
